theory Spec2Isabelle
  imports Main
begin

section \<open>Python strings and lists\<close>

text \<open>
  A Python \<open>str\<close> is a \<open>string\<close>: a list of characters, each standing for the code
  point of its number. The model covers the texts whose code points are below 256; there
  \<open>length\<close>, \<open>take\<close> and the whitespace test agree with Python's.

  \<open>isspace\<close> is the set of characters that \<open>str.strip()\<close> removes: tab, line feed,
  vertical tab, form feed, carriage return, the separators 28 to 31, the space, NEL (133)
  and the no-break space (160).
\<close>

definition isspace :: "char \<Rightarrow> bool" where
  "isspace c =
     (let n = (of_char c :: nat)
      in (9 \<le> n \<and> n \<le> 13) \<or> (28 \<le> n \<and> n \<le> 32) \<or> n = 133 \<or> n = 160)"

text \<open>\<open>s.strip()\<close>\<close>

definition str_strip :: "string \<Rightarrow> string" where
  "str_strip s = rev (dropWhile isspace (rev (dropWhile isspace s)))"

text \<open>\<open>s.lstrip(chars)\<close>: drops the longest prefix made of characters of \<open>chars\<close>.\<close>

definition str_lstrip :: "string \<Rightarrow> string \<Rightarrow> string" where
  "str_lstrip s chars = dropWhile (\<lambda>c. c \<in> set chars) s"

text \<open>\<open>s.startswith(p)\<close>\<close>

fun str_startswith :: "string \<Rightarrow> string \<Rightarrow> bool" where
  "str_startswith s [] = True"
| "str_startswith [] (p # ps) = False"
| "str_startswith (c # s) (p # ps) = (c = p \<and> str_startswith s ps)"

text \<open>\<open>sep.join(xs)\<close>\<close>

fun str_join :: "string \<Rightarrow> string list \<Rightarrow> string" where
  "str_join sep [] = []"
| "str_join sep [x] = x"
| "str_join sep (x # y # ys) = x @ sep @ str_join sep (y # ys)"

text \<open>
  The errors the parser's operations can raise: \<open>xs[i]\<close> out of range, and
  \<open>s.split(sep)\<close> with an empty separator.
\<close>

datatype error = IndexError | ValueError

fun str_of_error :: "error \<Rightarrow> string" where
  "str_of_error IndexError = ''list index out of range''"
| "str_of_error ValueError = ''empty separator''"

text \<open>\<open>xs[i]\<close> for an index that is not negative.\<close>

definition py_index :: "'a list \<Rightarrow> nat \<Rightarrow> error + 'a" where
  "py_index xs i = (if i < length xs then Inr (xs ! i) else Inl IndexError)"

text \<open>
  \<open>s.split(sep)\<close> cuts at every occurrence of \<open>sep\<close>, found from the left and not
  overlapping; \<open>s.split(sep, 1)\<close> cuts at the first one only. \<open>split_on\<close> and
  \<open>split_once\<close> are the two scans for a separator that is not empty.
\<close>

fun split_on :: "string \<Rightarrow> string \<Rightarrow> string list" where
  "split_on sep [] = [[]]"
| "split_on sep (c # s) =
     (if sep \<noteq> [] \<and> str_startswith (c # s) sep
      then [] # split_on sep (drop (length sep - 1) s)
      else (case split_on sep s of [] \<Rightarrow> [[c]] | w # ws \<Rightarrow> (c # w) # ws))"

fun split_once :: "string \<Rightarrow> string \<Rightarrow> string list" where
  "split_once sep [] = [[]]"
| "split_once sep (c # s) =
     (if sep \<noteq> [] \<and> str_startswith (c # s) sep
      then [[], drop (length sep - 1) s]
      else (case split_once sep s of [] \<Rightarrow> [[c]] | w # ws \<Rightarrow> (c # w) # ws))"

definition str_split :: "string \<Rightarrow> string \<Rightarrow> error + string list" where
  "str_split s sep = (if sep = [] then Inl ValueError else Inr (split_on sep s))"

definition str_split1 :: "string \<Rightarrow> string \<Rightarrow> error + string list" where
  "str_split1 s sep = (if sep = [] then Inl ValueError else Inr (split_once sep s))"

section \<open>The insight record and the scanner's state\<close>

text \<open>The dictionary \<open>result\<close> of \<open>_parse_structured_output\<close>: its five keys are fixed.\<close>

record insight =
  insight_summary :: string
  key_innovations :: "string list"
  novel_methods :: "string list"
  potential_applications :: "string list"
  extracted_keywords :: "string list"

text \<open>
  \<open>current_section\<close> is \<open>None\<close> or one of five strings; \<open>current_text\<close> is the
  buffer of the section being read.
\<close>

datatype section_name =
  Insight_summary | Key_innovations | Novel_methods | Potential_applications | Extracted_keywords

record scan_state =
  result :: insight
  current_section :: "section_name option"
  current_text :: "string list"

definition initial_state :: scan_state where
  "initial_state =
     \<lparr>result = \<lparr>insight_summary = [], key_innovations = [], novel_methods = [],
                 potential_applications = [], extracted_keywords = []\<rparr>,
      current_section = None, current_text = []\<rparr>"

section \<open>One line of the scan\<close>

text \<open>
  The part of the loop body below the header tests: what a line that is no header adds to
  the buffer, by the current section. \<open>line\<close> is the line already stripped.
\<close>

definition process_content :: "scan_state \<Rightarrow> string \<Rightarrow> error + scan_state" where
  "process_content st line =
     (if current_section st = Some Insight_summary then
        (if line \<noteq> [] then Inr (st\<lparr>current_text := current_text st @ [line]\<rparr>) else Inr st)
      else if current_section st \<in> {Some Key_innovations, Some Novel_methods,
                                     Some Potential_applications} then
        (if str_startswith line ''-'' \<or> str_startswith line ''*'' then
           (let item = str_strip (str_lstrip line ''-* '')
            in if item \<noteq> [] then Inr (st\<lparr>current_text := current_text st @ [item]\<rparr>)
               else Inr st)
         else Inr st)
      else if current_section st = Some Extracted_keywords then
        (if str_startswith line ''-'' then
           (let keywords_text = str_strip (str_lstrip line ''- '')
            in case str_split keywords_text '','' of
                 Inl e \<Rightarrow> Inl e
               | Inr parts \<Rightarrow>
                   Inr (st\<lparr>current_text := current_text st
                          @ map str_strip (filter (\<lambda>kw. str_strip kw \<noteq> []) parts)\<rparr>))
         else if CHR '','' \<in> set line then
           (case str_split line '','' of
              Inl e \<Rightarrow> Inl e
            | Inr parts \<Rightarrow>
                Inr (st\<lparr>current_text := current_text st
                       @ map str_strip (filter (\<lambda>kw. str_strip kw \<noteq> []) parts)\<rparr>))
         else Inr st)
      else Inr st)"

text \<open>
  The loop body: the line is stripped, the five header tests run in the source's order,
  and a line that is no header goes to \<open>process_content\<close>. Each header but the first
  saves the buffer only when the section being left is the one the template puts before
  it.
\<close>

definition process_line :: "scan_state \<Rightarrow> string \<Rightarrow> error + scan_state" where
  "process_line st raw_line =
     (let line = str_strip raw_line in
      if str_startswith line ''Insight Summary:'' then
        (case str_split1 line '':'' of
           Inl e \<Rightarrow> Inl e
         | Inr after_colon \<Rightarrow>
             if length after_colon > 1 then
               (case py_index after_colon 1 of
                  Inl e \<Rightarrow> Inl e
                | Inr a \<Rightarrow>
                    Inr (st\<lparr>current_section := Some Insight_summary,
                            current_text := (if str_strip a \<noteq> [] then [str_strip a] else [])\<rparr>))
             else Inr (st\<lparr>current_section := Some Insight_summary, current_text := []\<rparr>))
      else if str_startswith line ''Key Innovations:'' then
        Inr ((if current_section st = Some Insight_summary \<and> current_text st \<noteq> []
              then st\<lparr>result := (result st)\<lparr>insight_summary :=
                          str_strip (str_join '' '' (current_text st))\<rparr>\<rparr>
              else st)
             \<lparr>current_section := Some Key_innovations, current_text := []\<rparr>)
      else if str_startswith line ''Novel Methods / Techniques:''
              \<or> str_startswith line ''Novel Methods:'' then
        Inr ((if current_section st = Some Key_innovations \<and> current_text st \<noteq> []
              then st\<lparr>result := (result st)\<lparr>key_innovations :=
                          filter (\<lambda>item. item \<noteq> []) (current_text st)\<rparr>\<rparr>
              else st)
             \<lparr>current_section := Some Novel_methods, current_text := []\<rparr>)
      else if str_startswith line ''Potential Applications:'' then
        Inr ((if current_section st = Some Novel_methods \<and> current_text st \<noteq> []
              then st\<lparr>result := (result st)\<lparr>novel_methods :=
                          filter (\<lambda>item. item \<noteq> []) (current_text st)\<rparr>\<rparr>
              else st)
             \<lparr>current_section := Some Potential_applications, current_text := []\<rparr>)
      else if str_startswith line ''Extracted Keywords:'' then
        Inr ((if current_section st = Some Potential_applications \<and> current_text st \<noteq> []
              then st\<lparr>result := (result st)\<lparr>potential_applications :=
                          filter (\<lambda>item. item \<noteq> []) (current_text st)\<rparr>\<rparr>
              else st)
             \<lparr>current_section := Some Extracted_keywords, current_text := []\<rparr>)
      else process_content st line)"

text \<open>The \<open>for\<close> loop over the lines; an error ends it.\<close>

fun scan_lines :: "scan_state \<Rightarrow> string list \<Rightarrow> error + scan_state" where
  "scan_lines st [] = Inr st"
| "scan_lines st (l # ls) =
     (case process_line st l of Inl e \<Rightarrow> Inl e | Inr st' \<Rightarrow> scan_lines st' ls)"

section \<open>After the scan\<close>

text \<open>"Save final section": the buffer goes to the field of the section the scan ended in.\<close>

definition save_final_section :: "scan_state \<Rightarrow> insight" where
  "save_final_section st =
     (if current_section st = Some Insight_summary \<and> current_text st \<noteq> [] then
        (result st)\<lparr>insight_summary := str_strip (str_join '' '' (current_text st))\<rparr>
      else if current_section st = Some Key_innovations \<and> current_text st \<noteq> [] then
        (result st)\<lparr>key_innovations := filter (\<lambda>item. item \<noteq> []) (current_text st)\<rparr>
      else if current_section st = Some Novel_methods \<and> current_text st \<noteq> [] then
        (result st)\<lparr>novel_methods := filter (\<lambda>item. item \<noteq> []) (current_text st)\<rparr>
      else if current_section st = Some Potential_applications \<and> current_text st \<noteq> [] then
        (result st)\<lparr>potential_applications :=
           filter (\<lambda>item. item \<noteq> []) (current_text st)\<rparr>
      else if current_section st = Some Extracted_keywords \<and> current_text st \<noteq> [] then
        (result st)\<lparr>extracted_keywords := take 8 (current_text st)\<rparr>
      else result st)"

text \<open>The fallback: with no summary, the first paragraph of the raw text, cut at 500.\<close>

definition fallback_summary :: "string \<Rightarrow> insight \<Rightarrow> error + insight" where
  "fallback_summary raw_output r =
     (if insight_summary r = [] then
        (case str_split raw_output ''\<newline>\<newline>'' of
           Inl e \<Rightarrow> Inl e
         | Inr ps \<Rightarrow>
             (let paragraphs = map str_strip (filter (\<lambda>p. str_strip p \<noteq> []) ps)
              in if paragraphs \<noteq> [] then
                   (case py_index paragraphs 0 of
                      Inl e \<Rightarrow> Inl e
                    | Inr p \<Rightarrow> Inr (r\<lparr>insight_summary := take 500 p\<rparr>))
                 else Inr r))
      else Inr r)"

text \<open>"Ensure we have at least something".\<close>

definition ensure_summary :: "insight \<Rightarrow> insight" where
  "ensure_summary r =
     (if insight_summary r = []
      then r\<lparr>insight_summary := ''Unable to generate insight summary.''\<rparr>
      else r)"

text \<open>\<open>_parse_structured_output\<close>\<close>

definition parse_structured_output :: "string \<Rightarrow> error + insight" where
  "parse_structured_output raw_output =
     (case str_split raw_output ''\<newline>'' of
        Inl e \<Rightarrow> Inl e
      | Inr lines \<Rightarrow>
          (case scan_lines initial_state lines of
             Inl e \<Rightarrow> Inl e
           | Inr st \<Rightarrow>
               (case fallback_summary raw_output (save_final_section st) of
                  Inl e \<Rightarrow> Inl e
                | Inr r \<Rightarrow> Inr (ensure_summary r))))"

section \<open>The summarizer\<close>

text \<open>\<open>_get_empty_insight\<close>\<close>

definition get_empty_insight :: insight where
  "get_empty_insight =
     \<lparr>insight_summary = ''No abstract available for summarization.'',
      key_innovations = [], novel_methods = [], potential_applications = [],
      extracted_keywords = []\<rparr>"

text \<open>
  \<open>_build_summarization_prompt\<close>: the abstract between the two parts of the template,
  given here line by line. Line 108 of the source holds three characters between \<open>2\<close>
  and \<open>4\<close>, two of them above code point 255; they stand here as their UTF-8 bytes.
  The prompt only ever goes to the text generator, which is a parameter below.
\<close>

definition prompt_head_lines :: "string list" where
  "prompt_head_lines =
     [''You are an expert research analyst specializing in Energy Technology and AI.'',
      ''Analyze the following arXiv paper abstract and generate an insight-oriented summary.'',
      '''',
      ''Your task:'',
      ''- Do NOT rewrite the abstract'',
      ''- Identify what is truly new or innovative'',
      ''- Explain potential impact in practical energy systems'',
      ''- Extract meaningful technical keywords (not generic terms)'',
      '''',
      ''Abstract:'',
      '''']"

definition prompt_tail_lines :: "string list" where
  "prompt_tail_lines =
     ['''',
      '''',
      ''Generate your response in the EXACT format below (do not deviate):'',
      '''',
      ''Insight Summary:'',
      ''<2'' @ [CHR 0xC3, CHR 0xA2, CHR 0xE2, CHR 0x82, CHR 0xAC, CHR 0xE2, CHR 0x80, CHR 0x9C]
        @ ''4 sentences written as an expert insight, focusing on innovation, novelty, and impact>'',
      '''',
      ''Key Innovations:'',
      ''- <bullet point 1>'',
      ''- <bullet point 2>'',
      '''',
      ''Novel Methods / Techniques:'',
      ''- <bullet point 1>'',
      ''- <bullet point 2>'',
      '''',
      ''Potential Applications:'',
      ''- <bullet point 1>'',
      ''- <bullet point 2>'',
      '''',
      ''Extracted Keywords:'',
      ''- keyword1, keyword2, keyword3, keyword4, keyword5'',
      '''']"

definition build_summarization_prompt :: "string \<Rightarrow> string" where
  "build_summarization_prompt abstract =
     str_join ''\<newline>'' prompt_head_lines @ abstract @ str_join ''\<newline>'' prompt_tail_lines"

text \<open>
  \<open>summarize_abstract\<close>. The text generator (\<open>self.model.generate_content(prompt)\<close> and
  the read of \<open>response.text\<close>) is the parameter \<open>generate\<close>: it answers \<open>Inr\<close> with the
  text, or \<open>Inl\<close> with the description \<open>str(e)\<close> of the exception it raised. The
  function returns, beside the record, the calls it made, in order: that is how "without
  invoking" is read. The \<open>try\<close> block also covers the parser, so an error of the parser
  would end in the same \<open>except\<close> branch.
\<close>

datatype call = Generate_content string | Parse_structured_output string

definition error_insight :: "string \<Rightarrow> insight" where
  "error_insight cause =
     get_empty_insight\<lparr>insight_summary :=
       ''Error generating summary: '' @ cause
         @ ''. Please check API key and network connection.''\<rparr>"

definition summarize_abstract ::
  "(string \<Rightarrow> string + string) \<Rightarrow> string \<Rightarrow> call list \<times> insight" where
  "summarize_abstract generate abstract =
     (if abstract = [] \<or> str_strip abstract = [] then ([], get_empty_insight)
      else
        (let prompt = build_summarization_prompt abstract in
         case generate prompt of
           Inl cause \<Rightarrow> ([Generate_content prompt], error_insight cause)
         | Inr text \<Rightarrow>
             (let raw_output = str_strip text in
              case parse_structured_output raw_output of
                Inl e \<Rightarrow>
                  ([Generate_content prompt, Parse_structured_output raw_output],
                   error_insight (str_of_error e))
              | Inr parsed_insight \<Rightarrow>
                  ([Generate_content prompt, Parse_structured_output raw_output],
                   parsed_insight))))"

section \<open>Notions the statements use\<close>

text \<open>A stripped line is a header when it starts with one of the six header strings.\<close>

definition is_header :: "string \<Rightarrow> bool" where
  "is_header line =
     (str_startswith line ''Insight Summary:'' \<or> str_startswith line ''Key Innovations:''
      \<or> str_startswith line ''Novel Methods / Techniques:''
      \<or> str_startswith line ''Novel Methods:''
      \<or> str_startswith line ''Potential Applications:''
      \<or> str_startswith line ''Extracted Keywords:'')"

text \<open>
  Modelled from the spec: the re-serialization of a record "to the same template"; the
  sources hold the template (in the prompt) and no function that writes a record into
  it. The five headers stand in the template's order, the summary on the line under its
  header, every item of a bulleted field on a line \<open>- item\<close>, the keywords on one line
  \<open>- k1, k2, ...\<close>, and a blank line between two sections.
\<close>

definition serialize_lines :: "insight \<Rightarrow> string list" where
  "serialize_lines r =
     [''Insight Summary:'', insight_summary r, '''', ''Key Innovations:'']
     @ map (\<lambda>x. ''- '' @ x) (key_innovations r)
     @ ['''', ''Novel Methods / Techniques:'']
     @ map (\<lambda>x. ''- '' @ x) (novel_methods r)
     @ ['''', ''Potential Applications:'']
     @ map (\<lambda>x. ''- '' @ x) (potential_applications r)
     @ ['''', ''Extracted Keywords:'', ''- '' @ str_join '', '' (extracted_keywords r)]"

definition serialize :: "insight \<Rightarrow> string" where
  "serialize r = str_join ''\<newline>'' (serialize_lines r)"

text \<open>
  The records of the round-trip claim. \<open>plain_text\<close> is the claim's condition on one
  field text (no newline, no leading \<open>-\<close> or \<open>*\<close>, no header at its start) together
  with the data model's "non-empty after trimming"; \<open>roundtrip_domain\<close> asks it of every
  field text, no comma in a keyword, and at most 8 keywords. \<open>all_trimmed\<close> is what the
  claim leaves out: no field text starts or ends with whitespace.
\<close>

definition plain_text :: "string \<Rightarrow> bool" where
  "plain_text s =
     (str_strip s \<noteq> [] \<and> CHR ''\<newline>'' \<notin> set s \<and> \<not> str_startswith s ''-''
      \<and> \<not> str_startswith s ''*'' \<and> \<not> is_header s)"

definition roundtrip_domain :: "insight \<Rightarrow> bool" where
  "roundtrip_domain r =
     (plain_text (insight_summary r) \<and> list_all plain_text (key_innovations r)
      \<and> list_all plain_text (novel_methods r)
      \<and> list_all plain_text (potential_applications r)
      \<and> list_all (\<lambda>k. plain_text k \<and> CHR '','' \<notin> set k) (extracted_keywords r)
      \<and> length (extracted_keywords r) \<le> 8)"

definition all_trimmed :: "insight \<Rightarrow> bool" where
  "all_trimmed r =
     (str_strip (insight_summary r) = insight_summary r
      \<and> list_all (\<lambda>x. str_strip x = x) (key_innovations r)
      \<and> list_all (\<lambda>x. str_strip x = x) (novel_methods r)
      \<and> list_all (\<lambda>x. str_strip x = x) (potential_applications r)
      \<and> list_all (\<lambda>x. str_strip x = x) (extracted_keywords r))"

text \<open>
  The bullet rule in the words of the claim about bulleted sections: "the leading bullet
  marker" is the one character the trimmed line begins with, and the item is what is left
  after it, trimmed. \<open>claimed_bullet_step\<close> is the state that claim gives after a line.
\<close>

definition spec_bullet_item :: "string \<Rightarrow> string" where
  "spec_bullet_item raw_line = str_strip (tl (str_strip raw_line))"

definition claimed_bullet_step :: "scan_state \<Rightarrow> string \<Rightarrow> scan_state" where
  "claimed_bullet_step st raw_line =
     (if (str_startswith (str_strip raw_line) ''-'' \<or> str_startswith (str_strip raw_line) ''*'')
         \<and> spec_bullet_item raw_line \<noteq> []
      then st\<lparr>current_text := current_text st @ [spec_bullet_item raw_line]\<rparr>
      else st)"

section \<open>The scan never fails\<close>

lemma process_content_Inr: "\<exists>st'. process_content st l = Inr st'"
  by (simp add: process_content_def str_split_def Let_def)

lemma process_line_Inr: "\<exists>st'. process_line st l = Inr st'"
  by (simp add: process_line_def process_content_Inr str_split1_def py_index_def Let_def)

lemma scan_lines_Inr: "\<exists>st'. scan_lines st ls = Inr st'"
proof (induction ls arbitrary: st)
  case Nil
  show ?case by simp
next
  case (Cons l ls)
  obtain st1 where "process_line st l = Inr st1" using process_line_Inr by blast
  with Cons.IH [of st1] show ?case by simp
qed

text \<open>No line of the scan writes \<open>extracted_keywords\<close>: only the final save does.\<close>

lemma process_content_keywords:
  "process_content st l = Inr st' \<Longrightarrow>
   extracted_keywords (result st') = extracted_keywords (result st)"
  by (auto simp: process_content_def str_split_def Let_def split: if_splits)

lemma process_line_keywords:
  "process_line st l = Inr st' \<Longrightarrow>
   extracted_keywords (result st') = extracted_keywords (result st)"
  by (auto simp: process_line_def str_split1_def py_index_def Let_def
      dest: process_content_keywords split: if_splits)

lemma scan_lines_keywords:
  "scan_lines st ls = Inr st' \<Longrightarrow>
   extracted_keywords (result st') = extracted_keywords (result st)"
proof (induction ls arbitrary: st)
  case Nil
  then show ?case by simp
next
  case (Cons l ls)
  obtain st1 where s1: "process_line st l = Inr st1" using process_line_Inr by blast
  with Cons.prems have "scan_lines st1 ls = Inr st'" by simp
  from Cons.IH [OF this] process_line_keywords [OF s1] show ?case by simp
qed

lemma save_final_section_keywords:
  "extracted_keywords (result st) = [] \<Longrightarrow>
   length (extracted_keywords (save_final_section st)) \<le> 8"
  by (simp add: save_final_section_def)

lemma fallback_summary_Inr:
  "\<exists>r'. fallback_summary raw r = Inr r' \<and> extracted_keywords r' = extracted_keywords r"
  by (simp add: fallback_summary_def str_split_def py_index_def Let_def)

lemma ensure_summary_nonempty: "insight_summary (ensure_summary r) \<noteq> []"
  by (simp add: ensure_summary_def)

lemma ensure_summary_keywords: "extracted_keywords (ensure_summary r) = extracted_keywords r"
  by (simp add: ensure_summary_def)

section \<open>Lines that are no header\<close>

lemma process_content_None: "current_section st = None \<Longrightarrow> process_content st l = Inr st"
  by (simp add: process_content_def)

lemma process_line_no_header:
  "\<not> is_header (str_strip l) \<Longrightarrow> process_line st l = process_content st (str_strip l)"
  by (simp add: process_line_def is_header_def Let_def)

lemma scan_lines_no_header:
  "list_all (\<lambda>l. \<not> is_header (str_strip l)) ls \<Longrightarrow> current_section st = None \<Longrightarrow>
   scan_lines st ls = Inr st"
  by (induction ls) (simp_all add: process_line_no_header process_content_None)

section \<open>Stripping, splitting and joining\<close>

lemma str_strip_hd:
  assumes "str_strip s \<noteq> []"
  shows "\<not> isspace (hd (str_strip s))"
proof -
  define t where "t = dropWhile isspace s"
  define u where "u = dropWhile isspace (rev t)"
  have s: "str_strip s = rev u" by (simp add: str_strip_def t_def u_def)
  with assms have u: "u \<noteq> []" by simp
  then have t: "t \<noteq> []" by (auto simp: u_def)
  have "rev t = takeWhile isspace (rev t) @ u" by (simp add: u_def)
  then have "last (rev t) = last u" using u by (metis last_appendR)
  then have "last u = hd t" using t by (simp add: last_rev)
  moreover have "\<not> isspace (hd t)" using t unfolding t_def by (rule hd_dropWhile)
  ultimately show ?thesis using u by (simp add: s hd_rev)
qed

lemma str_strip_last:
  assumes "str_strip s \<noteq> []"
  shows "\<not> isspace (last (str_strip s))"
proof -
  define u where "u = dropWhile isspace (rev (dropWhile isspace s))"
  have s: "str_strip s = rev u" by (simp add: str_strip_def u_def)
  with assms have u: "u \<noteq> []" by simp
  then have "\<not> isspace (hd u)" unfolding u_def by (rule hd_dropWhile)
  then show ?thesis using u by (simp add: s last_rev)
qed

lemma str_strip_Cons: "\<not> isspace c \<Longrightarrow> str_strip (c # s) = c # rev (dropWhile isspace (rev s))"
  by (simp add: str_strip_def dropWhile_append)

lemma rstrip_append:
  assumes "s \<noteq> []" and "\<not> isspace (last s)"
  shows "rev (dropWhile isspace (rev (p @ s))) = p @ s"
proof -
  from assms(1) obtain c r where r: "rev s = c # r" by (cases "rev s") auto
  then have "s = rev r @ [c]" by (simp add: rev_swap)
  with assms(2) have "\<not> isspace c" by simp
  then have "dropWhile isspace ((c # r) @ rev p) = (c # r) @ rev p" by simp
  then have "dropWhile isspace (rev (p @ s)) = rev (p @ s)" by (simp add: r)
  then show ?thesis by simp
qed

lemma split_on_char_none: "c \<notin> set a \<Longrightarrow> split_on [c] a = [a]"
  by (induction a) auto

lemma split_on_char_append:
  "c \<notin> set a \<Longrightarrow> split_on [c] (a @ c # rest) = a # split_on [c] rest"
  by (induction a) auto

lemma isspace_space: "isspace (CHR '' '')"
  by (simp add: isspace_def)

lemma not_isspace_dash: "\<not> isspace (CHR ''-'')"
  by (simp add: isspace_def)

text \<open>A trimmed, non-empty text: its first and last characters are no whitespace.\<close>

lemma trimmed_hd: "str_strip x = x \<Longrightarrow> x \<noteq> [] \<Longrightarrow> \<not> isspace (hd x)"
  using str_strip_hd [of x] by simp

lemma trimmed_last: "str_strip x = x \<Longrightarrow> x \<noteq> [] \<Longrightarrow> \<not> isspace (last x)"
  using str_strip_last [of x] by simp

lemma str_strip_dash_line:
  assumes "str_strip x = x" and "x \<noteq> []"
  shows "str_strip (''- '' @ x) = ''- '' @ x"
proof -
  have "rev (dropWhile isspace (rev ('' '' @ x))) = '' '' @ x"
    using assms by (intro rstrip_append trimmed_last)
  then show ?thesis by (simp add: str_strip_Cons not_isspace_dash)
qed

lemma str_strip_space_word:
  assumes "str_strip x = x" and "x \<noteq> []"
  shows "str_strip (CHR '' '' # x) = x"
proof -
  from assms obtain c y where x: "x = c # y" by (cases x) auto
  with assms have c: "\<not> isspace c" using trimmed_hd [of x] by simp
  have "str_strip (CHR '' '' # x) = str_strip x"
    by (simp add: str_strip_def isspace_space)
  with assms show ?thesis by simp
qed

lemma lstrip_plain:
  assumes "str_strip x = x" and "x \<noteq> []" and "\<not> str_startswith x ''-''"
    and "\<not> str_startswith x ''*''"
  shows "str_lstrip (''- '' @ x) ''-* '' = x"
proof -
  from assms(2) obtain c y where x: "x = c # y" by (cases x) auto
  with assms(1) have "\<not> isspace c" using trimmed_hd [of x] by simp
  then have "c \<noteq> CHR '' ''" using isspace_space by auto
  with assms(3,4) show ?thesis by (simp add: x str_lstrip_def)
qed

lemma lstrip_keywords:
  assumes "str_strip x = x" and "x \<noteq> []" and "\<not> str_startswith x ''-''"
  shows "str_lstrip (''- '' @ x @ y) ''- '' = x @ y"
proof -
  from assms(2) obtain c z where x: "x = c # z" by (cases x) auto
  with assms(1) have "\<not> isspace c" using trimmed_hd [of x] by simp
  then have "c \<noteq> CHR '' ''" using isspace_space by auto
  with assms(3) show ?thesis by (simp add: x str_lstrip_def)
qed

section \<open>The lines of a serialized record\<close>

lemma dash_line_no_header: "\<not> is_header (CHR ''-'' # s)"
  by (simp add: is_header_def)

lemma bullet_line_roundtrip:
  assumes "current_section st \<in> {Some Key_innovations, Some Novel_methods, Some Potential_applications}"
    and "str_strip x = x" and "x \<noteq> []" and "\<not> str_startswith x ''-''"
    and "\<not> str_startswith x ''*''"
  shows "process_line st (''- '' @ x) = Inr (st\<lparr>current_text := current_text st @ [x]\<rparr>)"
proof -
  have s: "str_strip (''- '' @ x) = ''- '' @ x" using assms(2,3) by (rule str_strip_dash_line)
  have h: "\<not> is_header (str_strip (''- '' @ x))" unfolding s by (simp add: dash_line_no_header)
  have l: "str_lstrip (''- '' @ x) ''-* '' = x" using assms(2-5) by (rule lstrip_plain)
  have "process_content st (''- '' @ x) = Inr (st\<lparr>current_text := current_text st @ [x]\<rparr>)"
    using assms(1,2,3) unfolding process_content_def l by auto
  then show ?thesis by (simp only: process_line_no_header [OF h] s)
qed

lemma scan_bullets:
  assumes "current_section st \<in> {Some Key_innovations, Some Novel_methods, Some Potential_applications}"
    and "list_all (\<lambda>x. str_strip x = x \<and> x \<noteq> [] \<and> \<not> str_startswith x ''-''
          \<and> \<not> str_startswith x ''*'') xs"
  shows "scan_lines st (map (\<lambda>x. ''- '' @ x) xs) = Inr (st\<lparr>current_text := current_text st @ xs\<rparr>)"
  using assms
proof (induction xs arbitrary: st)
  case Nil
  then show ?case by simp
next
  case (Cons x xs)
  let ?st1 = "st\<lparr>current_text := current_text st @ [x]\<rparr>"
  from Cons.prems have p: "process_line st (''- '' @ x) = Inr ?st1"
    by (intro bullet_line_roundtrip) simp_all
  have "scan_lines ?st1 (map (\<lambda>x. ''- '' @ x) xs) = Inr (?st1\<lparr>current_text := current_text ?st1 @ xs\<rparr>)"
    using Cons.prems by (intro Cons.IH) simp_all
  with p show ?case by simp
qed


lemma trimmedI:
  assumes "s \<noteq> []" and "\<not> isspace (hd s)" and "\<not> isspace (last s)"
  shows "str_strip s = s"
proof -
  from assms(1) obtain c z where s: "s = c # z" by (cases s) auto
  have "rev (dropWhile isspace (rev z)) = z"
  proof (cases "z = []")
    case True
    then show ?thesis by simp
  next
    case False
    with assms(3) s have "\<not> isspace (last z)" by simp
    with False show ?thesis using rstrip_append [of z "[]"] by simp
  qed
  with assms(2) show ?thesis by (simp add: s str_strip_Cons)
qed

lemma str_join_Cons: "str_join sep (k # rest) = k @ concat (map ((@) sep) rest)"
  by (induction rest arbitrary: k) simp_all

lemma split_on_comma_join:
  assumes "list_all (\<lambda>k. CHR '','' \<notin> set k) (k # rest)"
  shows "split_on '','' (k @ concat (map ((@) '', '') rest)) = k # map ((#) CHR '' '') rest"
  using assms
proof (induction rest arbitrary: k)
  case Nil
  then show ?case by (simp add: split_on_char_none)
next
  case (Cons y ys)
  from Cons.prems have kc: "CHR '','' \<notin> set k" by simp
  have a: "k @ concat (map ((@) '', '') (y # ys))
           = k @ CHR '','' # ((CHR '' '' # y) @ concat (map ((@) '', '') ys))"
    by simp
  have b: "split_on '','' ((CHR '' '' # y) @ concat (map ((@) '', '') ys))
           = (CHR '' '' # y) # map ((#) CHR '' '') ys"
    using Cons.prems by (intro Cons.IH) simp
  show ?case unfolding a split_on_char_append [OF kc] b by simp
qed

lemma strip_filter_space_words:
  assumes "list_all (\<lambda>x. str_strip x = x \<and> x \<noteq> []) xs"
  shows "map str_strip (filter (\<lambda>kw. str_strip kw \<noteq> []) (map ((#) CHR '' '') xs)) = xs"
  using assms by (induction xs) (simp_all add: str_strip_space_word)

lemma join_last:
  assumes "list_all (\<lambda>x. x \<noteq> [] \<and> \<not> isspace (last x)) (k # rest)"
  shows "str_join sep (k # rest) \<noteq> [] \<and> \<not> isspace (last (str_join sep (k # rest)))"
  using assms by (induction rest arbitrary: k) auto

lemma keywords_line_roundtrip:
  assumes sec: "current_section st = Some Extracted_keywords"
    and ks: "list_all (\<lambda>k. str_strip k = k \<and> k \<noteq> [] \<and> \<not> str_startswith k ''-''
               \<and> CHR '','' \<notin> set k) ks"
  shows "process_line st (''- '' @ str_join '', '' ks)
         = Inr (st\<lparr>current_text := current_text st @ ks\<rparr>)"
proof (cases ks)
  case Nil
  have s: "str_strip ''- '' = ''-''" by code_simp
  have h: "\<not> is_header (str_strip ''- '')" unfolding s by (rule dash_line_no_header)
  have "process_content st ''-'' = Inr st"
    using sec by (simp add: process_content_def str_lstrip_def str_strip_def str_split_def)
  with Nil show ?thesis by (simp add: process_line_no_header [OF h] s)
next
  case (Cons k rest)
  define J where "J = str_join '', '' ks"
  have J: "J = k @ concat (map ((@) '', '') rest)"
    by (simp add: J_def Cons str_join_Cons)
  from ks Cons have k: "str_strip k = k" "k \<noteq> []" "\<not> str_startswith k ''-''" by simp_all
  have "list_all (\<lambda>x. x \<noteq> [] \<and> \<not> isspace (last x)) (k # rest)"
    using ks unfolding Cons by (auto simp: list_all_iff trimmed_last)
  from join_last [OF this] have Jl: "J \<noteq> []" "\<not> isspace (last J)"
    by (simp_all add: J_def Cons)
  have Jh: "\<not> isspace (hd J)" using k trimmed_hd [of k] by (simp add: J)
  have sJ: "str_strip J = J" using Jl(1) Jh Jl(2) by (rule trimmedI)
  have s: "str_strip (''- '' @ J) = ''- '' @ J" using sJ Jl(1) by (rule str_strip_dash_line)
  have h: "\<not> is_header (str_strip (''- '' @ J))" unfolding s by (simp add: dash_line_no_header)
  have l: "str_lstrip (''- '' @ J) ''- '' = J"
    using lstrip_keywords [OF k, of "concat (map ((@) '', '') rest)"] by (simp add: J)
  have "list_all (\<lambda>k. CHR '','' \<notin> set k) (k # rest)"
    using ks unfolding Cons by (auto simp: list_all_iff)
  from split_on_comma_join [OF this] have sp: "split_on '','' J = k # map ((#) CHR '' '') rest"
    by (simp add: J)
  have "list_all (\<lambda>x. str_strip x = x \<and> x \<noteq> []) rest"
    using ks unfolding Cons by (auto simp: list_all_iff)
  from strip_filter_space_words [OF this] k
  have f: "map str_strip (filter (\<lambda>kw. str_strip kw \<noteq> []) (split_on '','' J)) = ks"
    by (simp add: sp Cons)
  have "process_content st (''- '' @ J) = Inr (st\<lparr>current_text := current_text st @ ks\<rparr>)"
    using sec unfolding process_content_def l sJ by (simp add: str_split_def f)
  then show ?thesis unfolding J_def [symmetric] by (simp only: process_line_no_header [OF h] s)
qed

lemma split_join_lines:
  assumes "ls \<noteq> []" and "list_all (\<lambda>l. CHR ''\<newline>'' \<notin> set l) ls"
  shows "split_on ''\<newline>'' (str_join ''\<newline>'' ls) = ls"
  using assms
proof (induction ls)
  case Nil
  then show ?case by simp
next
  case (Cons x xs)
  from Cons.prems have x: "CHR ''\<newline>'' \<notin> set x" by simp
  show ?case
  proof (cases xs)
    case Nil
    with x show ?thesis by (simp add: split_on_char_none)
  next
    case (Cons y ys)
    with Cons.IH Cons.prems have "split_on ''\<newline>'' (str_join ''\<newline>'' (y # ys)) = y # ys"
      by simp
    then show ?thesis
      using split_on_char_append [OF x, of "str_join ''\<newline>'' (y # ys)"]
      by (simp add: Cons)
  qed
qed

lemma scan_lines_append:
  "scan_lines st (xs @ ys) =
   (case scan_lines st xs of Inl e \<Rightarrow> Inl e | Inr st' \<Rightarrow> scan_lines st' ys)"
  by (induction xs arbitrary: st) (auto split: sum.splits)

lemma process_empty_line: "process_line st [] = Inr st"
proof -
  have s: "str_strip [] = []" by (simp add: str_strip_def)
  have h: "\<not> is_header (str_strip [])" unfolding s by (simp add: is_header_def)
  show ?thesis
    by (simp add: process_line_no_header [OF h] s process_content_def)
qed

lemma header_summary:
  "process_line st ''Insight Summary:''
   = Inr (st\<lparr>current_section := Some Insight_summary, current_text := []\<rparr>)"
proof -
  have s: "str_strip ''Insight Summary:'' = ''Insight Summary:''" by code_simp
  have a: "str_strip [] = []" by (simp add: str_strip_def)
  show ?thesis
    by (simp add: process_line_def s Let_def str_split1_def py_index_def a)
qed

lemma header_innovations:
  "process_line st ''Key Innovations:''
   = Inr ((if current_section st = Some Insight_summary \<and> current_text st \<noteq> []
           then st\<lparr>result := (result st)\<lparr>insight_summary :=
                       str_strip (str_join '' '' (current_text st))\<rparr>\<rparr>
           else st)
          \<lparr>current_section := Some Key_innovations, current_text := []\<rparr>)"
proof -
  have s: "str_strip ''Key Innovations:'' = ''Key Innovations:''" by code_simp
  show ?thesis by (simp add: process_line_def s Let_def)
qed

lemma header_methods:
  "process_line st ''Novel Methods / Techniques:''
   = Inr ((if current_section st = Some Key_innovations \<and> current_text st \<noteq> []
           then st\<lparr>result := (result st)\<lparr>key_innovations :=
                       filter (\<lambda>item. item \<noteq> []) (current_text st)\<rparr>\<rparr>
           else st)
          \<lparr>current_section := Some Novel_methods, current_text := []\<rparr>)"
proof -
  have s: "str_strip ''Novel Methods / Techniques:'' = ''Novel Methods / Techniques:''"
    by code_simp
  show ?thesis by (simp add: process_line_def s Let_def)
qed

lemma header_applications:
  "process_line st ''Potential Applications:''
   = Inr ((if current_section st = Some Novel_methods \<and> current_text st \<noteq> []
           then st\<lparr>result := (result st)\<lparr>novel_methods :=
                       filter (\<lambda>item. item \<noteq> []) (current_text st)\<rparr>\<rparr>
           else st)
          \<lparr>current_section := Some Potential_applications, current_text := []\<rparr>)"
proof -
  have s: "str_strip ''Potential Applications:'' = ''Potential Applications:''" by code_simp
  show ?thesis by (simp add: process_line_def s Let_def)
qed

lemma header_keywords:
  "process_line st ''Extracted Keywords:''
   = Inr ((if current_section st = Some Potential_applications \<and> current_text st \<noteq> []
           then st\<lparr>result := (result st)\<lparr>potential_applications :=
                       filter (\<lambda>item. item \<noteq> []) (current_text st)\<rparr>\<rparr>
           else st)
          \<lparr>current_section := Some Extracted_keywords, current_text := []\<rparr>)"
proof -
  have s: "str_strip ''Extracted Keywords:'' = ''Extracted Keywords:''" by code_simp
  show ?thesis by (simp add: process_line_def s Let_def)
qed

lemma summary_line_roundtrip:
  assumes "current_section st = Some Insight_summary" and "str_strip x = x" and "x \<noteq> []"
    and "\<not> is_header x"
  shows "process_line st x = Inr (st\<lparr>current_text := current_text st @ [x]\<rparr>)"
proof -
  from assms have h: "\<not> is_header (str_strip x)" by simp
  show ?thesis using assms by (simp add: process_line_no_header [OF h] process_content_def)
qed

lemma filter_nonempty_id: "list_all (\<lambda>x. x \<noteq> []) xs \<Longrightarrow> filter (\<lambda>item. item \<noteq> []) xs = xs"
  by (induction xs) simp_all

lemma not_in_join:
  assumes "c \<notin> set sep" and "list_all (\<lambda>k. c \<notin> set k) ks"
  shows "c \<notin> set (str_join sep ks)"
proof (cases ks)
  case Nil
  then show ?thesis by simp
next
  case (Cons k rest)
  with assms show ?thesis by (auto simp: str_join_Cons list_all_iff)
qed

section \<open>The claims\<close>

text \<open>
  C1. The five-section response of the specification's example parses to exactly the
  record the specification gives: the summary line, one item under each of the three
  bulleted headers, and the four keywords in order.
\<close>

theorem parse_turbine_example:
  "parse_structured_output
     ''Insight Summary:\<newline>This method improves turbine efficiency by 12%.\<newline>Key Innovations:\<newline>- Adaptive blade pitch control\<newline>Novel Methods:\<newline>- Reinforcement-learning controller\<newline>Potential Applications:\<newline>- Offshore wind farms\<newline>Extracted Keywords:\<newline>- wind, turbine, reinforcement learning, control''
   = Inr \<lparr>insight_summary = ''This method improves turbine efficiency by 12%.'',
          key_innovations = [''Adaptive blade pitch control''],
          novel_methods = [''Reinforcement-learning controller''],
          potential_applications = [''Offshore wind farms''],
          extracted_keywords = [''wind'', ''turbine'', ''reinforcement learning'', ''control'']\<rparr>"
  by code_simp

text \<open>
  C2. The claim: every header line first saves the buffer into the field of the section
  being left, whichever section that is. The source saves at a header only when the
  section being left is the one the template puts right before that header (and at
  \<open>Insight Summary:\<close> it saves nothing), although each branch is commented "Save
  previous section" and the save after the loop treats all five sections. Here the
  response has no methods section: \<open>Potential Applications:\<close> is met while
  \<open>key_innovations\<close> is current, the buffer \<open>[''Adaptive pitch'']\<close> is thrown away and
  the field stays empty.
\<close>

theorem skipped_header_loses_section:
  "parse_structured_output
     ''Insight Summary:\<newline>A new controller.\<newline>Key Innovations:\<newline>- Adaptive pitch\<newline>Potential Applications:\<newline>- Wind farms''
   = Inr \<lparr>insight_summary = ''A new controller.'',
          key_innovations = [],
          novel_methods = [],
          potential_applications = [''Wind farms''],
          extracted_keywords = []\<rparr>"
  by code_simp

text \<open>
  C3. For every input text the parser returns a record, and its \<open>extracted_keywords\<close>
  has at most 8 entries, however many tokens stand under the keywords header.
\<close>

theorem keywords_at_most_8:
  "\<exists>r. parse_structured_output raw = Inr r \<and> length (extracted_keywords r) \<le> 8"
proof -
  obtain st where st: "scan_lines initial_state (split_on ''\<newline>'' raw) = Inr st"
    using scan_lines_Inr by blast
  have "extracted_keywords (result st) = []"
    using scan_lines_keywords [OF st] by (simp add: initial_state_def)
  then have k: "length (extracted_keywords (save_final_section st)) \<le> 8"
    by (rule save_final_section_keywords)
  obtain r where r: "fallback_summary raw (save_final_section st) = Inr r"
    and "extracted_keywords r = extracted_keywords (save_final_section st)"
    using fallback_summary_Inr by blast
  with k have "length (extracted_keywords (ensure_summary r)) \<le> 8"
    by (simp add: ensure_summary_keywords)
  moreover have "parse_structured_output raw = Inr (ensure_summary r)"
    by (simp add: parse_structured_output_def str_split_def st r)
  ultimately show ?thesis by simp
qed

text \<open>
  C4. For an abstract that is empty or only whitespace, \<open>summarize_abstract\<close> returns the
  sentinel record (the fixed summary, the four lists empty) and makes no call: neither
  the text generator nor the parser is invoked.
\<close>

theorem empty_abstract_sentinel:
  assumes "abstract = [] \<or> str_strip abstract = []"
  shows "summarize_abstract generate abstract =
    ([], \<lparr>insight_summary = ''No abstract available for summarization.'',
          key_innovations = [], novel_methods = [], potential_applications = [],
          extracted_keywords = []\<rparr>)"
  using assms by (auto simp: summarize_abstract_def get_empty_insight_def)

text \<open>The witness: an abstract of three spaces, with a generator that would answer.\<close>

theorem empty_abstract_sentinel_witness:
  "(''   '' = [] \<or> str_strip ''   '' = [])
   \<and> summarize_abstract (\<lambda>p. Inr ''Insight Summary: x'') ''   '' =
    ([], \<lparr>insight_summary = ''No abstract available for summarization.'',
          key_innovations = [], novel_methods = [], potential_applications = [],
          extracted_keywords = []\<rparr>)"
proof -
  have h: "''   '' = [] \<or> str_strip ''   '' = []" by code_simp
  show ?thesis using h empty_abstract_sentinel [OF h] by simp
qed

text \<open>
  C5. When the text generator raises with description \<open>cause\<close> (it is called only for
  an abstract that is not blank), \<open>summarize_abstract\<close> returns a record: the summary is
  \<open>Error generating summary: \<close> then \<open>cause\<close> then
  \<open>. Please check API key and network connection.\<close>, the four lists are empty, and the
  only call made is the one to the generator: the parser is not invoked.
\<close>

theorem upstream_failure_record:
  assumes "str_strip abstract \<noteq> []"
    and "generate (build_summarization_prompt abstract) = Inl cause"
  shows "summarize_abstract generate abstract =
    ([Generate_content (build_summarization_prompt abstract)],
     \<lparr>insight_summary = ''Error generating summary: '' @ cause
          @ ''. Please check API key and network connection.'',
      key_innovations = [], novel_methods = [], potential_applications = [],
      extracted_keywords = []\<rparr>)"
proof -
  from assms(1) have "abstract \<noteq> []" by (auto simp: str_strip_def)
  with assms show ?thesis
    by (simp add: summarize_abstract_def error_insight_def get_empty_insight_def Let_def)
qed

text \<open>The witness: the abstract \<open>Wind.\<close> and a generator that fails on every prompt.\<close>

theorem upstream_failure_record_witness:
  "str_strip ''Wind.'' \<noteq> []
   \<and> (\<lambda>p. Inl ''quota exceeded'' :: string + string) (build_summarization_prompt ''Wind.'')
       = Inl ''quota exceeded''
   \<and> summarize_abstract (\<lambda>p. Inl ''quota exceeded'') ''Wind.'' =
    ([Generate_content (build_summarization_prompt ''Wind.'')],
     \<lparr>insight_summary =
        ''Error generating summary: quota exceeded. Please check API key and network connection.'',
      key_innovations = [], novel_methods = [], potential_applications = [],
      extracted_keywords = []\<rparr>)"
proof -
  have h: "str_strip ''Wind.'' \<noteq> []" by code_simp
  have g: "(\<lambda>p. Inl ''quota exceeded'' :: string + string) (build_summarization_prompt ''Wind.'')
           = Inl ''quota exceeded''"
    by simp
  show ?thesis using h upstream_failure_record [OF h g] by simp
qed

text \<open>
  C6. When no line of the text, once stripped, starts with a header string, the parser
  returns the record whose four lists are empty and whose summary is the first
  paragraph that is not blank, cut to its first 500 characters, or the fixed string when
  there is none. The paragraphs are the pieces of the text between blank-line boundaries
  (two line feeds in a row), each stripped, the empty ones dropped.
\<close>

theorem no_header_fallback:
  assumes "list_all (\<lambda>l. \<not> is_header (str_strip l)) (split_on ''\<newline>'' raw)"
  shows "parse_structured_output raw =
    Inr \<lparr>insight_summary =
           (case filter (\<lambda>p. p \<noteq> []) (map str_strip (split_on ''\<newline>\<newline>'' raw)) of
              [] \<Rightarrow> ''Unable to generate insight summary.''
            | p # _ \<Rightarrow> take 500 p),
         key_innovations = [], novel_methods = [], potential_applications = [],
         extracted_keywords = []\<rparr>"
proof -
  have scan: "scan_lines initial_state (split_on ''\<newline>'' raw) = Inr initial_state"
    using assms by (rule scan_lines_no_header) (simp add: initial_state_def)
  have fin: "save_final_section initial_state = result initial_state"
    by (simp add: save_final_section_def initial_state_def)
  have flt: "map str_strip (filter (\<lambda>p. str_strip p \<noteq> []) ps)
             = filter (\<lambda>p. p \<noteq> []) (map str_strip ps)" for ps
    by (induction ps) simp_all
  have p: "parse_structured_output raw =
      (case fallback_summary raw (result initial_state) of
         Inl e \<Rightarrow> Inl e | Inr r \<Rightarrow> Inr (ensure_summary r))"
    by (simp add: parse_structured_output_def str_split_def scan fin)
  show ?thesis
  proof (cases "filter (\<lambda>p. p \<noteq> []) (map str_strip (split_on ''\<newline>\<newline>'' raw))")
    case Nil
    then show ?thesis
      by (simp add: p fallback_summary_def str_split_def flt ensure_summary_def
          initial_state_def)
  next
    case (Cons q qs)
    then have "q \<in> set (filter (\<lambda>p. p \<noteq> []) (map str_strip (split_on ''\<newline>\<newline>'' raw)))"
      by simp
    then have "q \<noteq> []" by simp
    with Cons show ?thesis
      by (simp add: p fallback_summary_def str_split_def flt ensure_summary_def
          initial_state_def py_index_def)
  qed
qed

text \<open>The witness: two paragraphs and no header; the first one, stripped, is the summary.\<close>

theorem no_header_fallback_witness:
  "list_all (\<lambda>l. \<not> is_header (str_strip l))
     (split_on ''\<newline>'' ''  Wind power.\<newline>More text.\<newline>\<newline>Second.'')
   \<and> parse_structured_output ''  Wind power.\<newline>More text.\<newline>\<newline>Second.'' =
    Inr \<lparr>insight_summary = ''Wind power.\<newline>More text.'',
         key_innovations = [], novel_methods = [], potential_applications = [],
         extracted_keywords = []\<rparr>"
proof -
  have h: "list_all (\<lambda>l. \<not> is_header (str_strip l))
             (split_on ''\<newline>'' ''  Wind power.\<newline>More text.\<newline>\<newline>Second.'')"
    by code_simp
  have e: "(case filter (\<lambda>p. p \<noteq> [])
                  (map str_strip
                    (split_on ''\<newline>\<newline>'' ''  Wind power.\<newline>More text.\<newline>\<newline>Second.'')) of
              [] \<Rightarrow> ''Unable to generate insight summary.''
            | p # _ \<Rightarrow> take 500 p) = ''Wind power.\<newline>More text.''"
    by code_simp
  show ?thesis using h no_header_fallback [OF h] unfolding e by simp
qed

text \<open>
  C7. The parser is total: on every input text it returns a record (never an error:
  neither of its two index reads is out of range, no separator is empty), and the
  summary of that record is not empty. The five fields are those of the record type.
\<close>

theorem parse_total_summary_nonempty:
  "\<exists>r. parse_structured_output raw = Inr r \<and> insight_summary r \<noteq> []"
proof -
  obtain st where st: "scan_lines initial_state (split_on ''\<newline>'' raw) = Inr st"
    using scan_lines_Inr by blast
  obtain r where r: "fallback_summary raw (save_final_section st) = Inr r"
    using fallback_summary_Inr by blast
  have "parse_structured_output raw = Inr (ensure_summary r)"
    by (simp add: parse_structured_output_def str_split_def st r)
  then show ?thesis by (simp add: ensure_summary_nonempty)
qed

text \<open>
  C8, amended. In the innovations, methods or applications section, a line that is no
  header adds an item to the buffer exactly when, once stripped, it starts with \<open>-\<close> or
  \<open>*\<close> and something is left after removing the whole leading run of \<open>-\<close>, \<open>*\<close> and
  space characters (not only the first marker) and then the surrounding whitespace;
  the item is what is left. Every other such line leaves the state as it is: it is
  dropped, with no error, and joins no other item.
\<close>

theorem bullet_line_item:
  assumes "current_section st
             \<in> {Some Key_innovations, Some Novel_methods, Some Potential_applications}"
    and "\<not> is_header (str_strip l)"
  shows "process_line st l =
    Inr (if (str_startswith (str_strip l) ''-'' \<or> str_startswith (str_strip l) ''*'')
            \<and> str_strip (str_lstrip (str_strip l) ''-* '') \<noteq> []
         then st\<lparr>current_text :=
                 current_text st @ [str_strip (str_lstrip (str_strip l) ''-* '')]\<rparr>
         else st)"
  using assms by (auto simp: process_line_no_header process_content_def Let_def)

text \<open>The witness: a starred line with spaces around it, in the methods section.\<close>

theorem bullet_line_item_witness:
  "current_section \<lparr>result = result initial_state, current_section = Some Novel_methods,
                    current_text = [''x'']\<rparr>
     \<in> {Some Key_innovations, Some Novel_methods, Some Potential_applications}
   \<and> \<not> is_header (str_strip ''  * Adaptive pitch  '')
   \<and> process_line \<lparr>result = result initial_state, current_section = Some Novel_methods,
                    current_text = [''x'']\<rparr> ''  * Adaptive pitch  ''
     = Inr \<lparr>result = result initial_state, current_section = Some Novel_methods,
            current_text = [''x'', ''Adaptive pitch'']\<rparr>"
proof -
  have h1: "current_section \<lparr>result = result initial_state,
                current_section = Some Novel_methods, current_text = [''x'']\<rparr>
            \<in> {Some Key_innovations, Some Novel_methods, Some Potential_applications}"
    by simp
  have s: "str_strip ''  * Adaptive pitch  '' = ''* Adaptive pitch''" by code_simp
  have i: "str_strip (str_lstrip ''* Adaptive pitch'' ''-* '') = ''Adaptive pitch''"
    by code_simp
  have h2: "\<not> is_header (str_strip ''  * Adaptive pitch  '')"
    unfolding s by (simp add: is_header_def)
  show ?thesis using h1 h2 bullet_line_item [OF h1 h2] unfolding s i by simp
qed

text \<open>
  The claim as it is written ("stripping the leading bullet marker") fails on a line
  with a second marker character: for \<open>- -40 C operation\<close> it gives the item
  \<open>-40 C operation\<close>, and the source stores \<open>40 C operation\<close>.
\<close>

theorem bullet_marker_run_counterexample:
  "process_line \<lparr>result = result initial_state, current_section = Some Key_innovations,
                 current_text = []\<rparr> ''- -40 C operation''
   \<noteq> Inr (claimed_bullet_step
            \<lparr>result = result initial_state, current_section = Some Key_innovations,
             current_text = []\<rparr> ''- -40 C operation'')"
  by code_simp

text \<open>
  C9, amended. A record whose field texts are plain (no newline, no leading \<open>-\<close> or
  \<open>*\<close>, no header at the start, not blank; no comma in a keyword; at most 8 keywords)
  and, beyond what the claim asks, have no whitespace at either end, is parsed back
  unchanged from its serialization into the five-section template.
\<close>

theorem serialize_parse_roundtrip:
  assumes d: "roundtrip_domain r" and t: "all_trimmed r"
  shows "parse_structured_output (serialize r) = Inr r"
proof -
  define S K N P W where "S = insight_summary r" and "K = key_innovations r"
    and "N = novel_methods r" and "P = potential_applications r"
    and "W = extracted_keywords r"
  note fields = S_def K_def N_def P_def W_def
  define R0 where "R0 = result initial_state"
  have r: "r = \<lparr>insight_summary = S, key_innovations = K, novel_methods = N,
                potential_applications = P, extracted_keywords = W\<rparr>"
    by (simp add: fields)
  have S: "str_strip S = S" "S \<noteq> []" "\<not> is_header S" "CHR ''\<newline>'' \<notin> set S"
    using d t by (auto simp: roundtrip_domain_def all_trimmed_def plain_text_def fields)
  have bullets: "list_all (\<lambda>x. str_strip x = x \<and> x \<noteq> [] \<and> \<not> str_startswith x ''-''
          \<and> \<not> str_startswith x ''*'') xs
      \<and> list_all (\<lambda>x. CHR ''\<newline>'' \<notin> set x) xs \<and> list_all (\<lambda>x. x \<noteq> []) xs"
    if "list_all plain_text xs" and "list_all (\<lambda>x. str_strip x = x) xs" for xs
    using that by (auto simp: list_all_iff plain_text_def)
  have K: "list_all (\<lambda>x. str_strip x = x \<and> x \<noteq> [] \<and> \<not> str_startswith x ''-''
          \<and> \<not> str_startswith x ''*'') K"
    "list_all (\<lambda>x. CHR ''\<newline>'' \<notin> set x) K" "list_all (\<lambda>x. x \<noteq> []) K"
    using d t bullets [of K] by (simp_all add: roundtrip_domain_def all_trimmed_def fields)
  have N: "list_all (\<lambda>x. str_strip x = x \<and> x \<noteq> [] \<and> \<not> str_startswith x ''-''
          \<and> \<not> str_startswith x ''*'') N"
    "list_all (\<lambda>x. CHR ''\<newline>'' \<notin> set x) N" "list_all (\<lambda>x. x \<noteq> []) N"
    using d t bullets [of N] by (simp_all add: roundtrip_domain_def all_trimmed_def fields)
  have P: "list_all (\<lambda>x. str_strip x = x \<and> x \<noteq> [] \<and> \<not> str_startswith x ''-''
          \<and> \<not> str_startswith x ''*'') P"
    "list_all (\<lambda>x. CHR ''\<newline>'' \<notin> set x) P" "list_all (\<lambda>x. x \<noteq> []) P"
    using d t bullets [of P] by (simp_all add: roundtrip_domain_def all_trimmed_def fields)
  have W: "list_all (\<lambda>k. str_strip k = k \<and> k \<noteq> [] \<and> \<not> str_startswith k ''-''
               \<and> CHR '','' \<notin> set k) W"
    "list_all (\<lambda>x. CHR ''\<newline>'' \<notin> set x) W" "length W \<le> 8"
    using d t by (auto simp: roundtrip_domain_def all_trimmed_def fields list_all_iff
        plain_text_def)
  have Wline: "CHR ''\<newline>'' \<notin> set (''- '' @ str_join '', '' W)"
    using not_in_join [of "CHR ''\<newline>''" "'', ''" W] W(2) by simp
  have dash: "list_all (\<lambda>l. CHR ''\<newline>'' \<notin> set l) (map (\<lambda>x. ''- '' @ x) xs)"
    if "list_all (\<lambda>x. CHR ''\<newline>'' \<notin> set x) xs" for xs
    using that by (induction xs) simp_all
  have "list_all (\<lambda>l. CHR ''\<newline>'' \<notin> set l) (serialize_lines r)"
    using S(4) dash [OF K(2)] dash [OF N(2)] dash [OF P(2)] Wline
    by (simp add: serialize_lines_def fields [symmetric])
  moreover have "serialize_lines r \<noteq> []" by (simp add: serialize_lines_def)
  ultimately have split: "split_on ''\<newline>'' (serialize r) = serialize_lines r"
    unfolding serialize_def by (intro split_join_lines)

  define st1 where "st1 =
    \<lparr>result = R0, current_section = Some Insight_summary, current_text = [S]\<rparr>"
  have 1: "scan_lines initial_state [''Insight Summary:'', S, ''''] = Inr st1"
    using S by (simp add: header_summary summary_line_roundtrip process_empty_line st1_def
        R0_def initial_state_def)
  define st2 where "st2 =
    \<lparr>result = R0\<lparr>insight_summary := S\<rparr>, current_section = Some Key_innovations,
     current_text = K\<rparr>"
  have 2: "scan_lines st1 (''Key Innovations:'' # map (\<lambda>x. ''- '' @ x) K @ ['''']) = Inr st2"
    using S(1) scan_bullets [OF _ K(1),
        of "\<lparr>result = R0\<lparr>insight_summary := S\<rparr>, current_section = Some Key_innovations,
             current_text = []\<rparr>"]
    by (simp add: header_innovations st1_def st2_def scan_lines_append process_empty_line)
  define st3 where "st3 =
    \<lparr>result = R0\<lparr>insight_summary := S, key_innovations := K\<rparr>,
     current_section = Some Novel_methods, current_text = N\<rparr>"
  have 3: "scan_lines st2 (''Novel Methods / Techniques:'' # map (\<lambda>x. ''- '' @ x) N @ [''''])
           = Inr st3"
    using filter_nonempty_id [OF K(3)] scan_bullets [OF _ N(1),
        of "\<lparr>result = R0\<lparr>insight_summary := S, key_innovations := K\<rparr>,
             current_section = Some Novel_methods, current_text = []\<rparr>"]
    by (auto simp: header_methods st2_def st3_def scan_lines_append process_empty_line R0_def
        initial_state_def)
  define st4 where "st4 =
    \<lparr>result = R0\<lparr>insight_summary := S, key_innovations := K, novel_methods := N\<rparr>,
     current_section = Some Potential_applications, current_text = P\<rparr>"
  have 4: "scan_lines st3 (''Potential Applications:'' # map (\<lambda>x. ''- '' @ x) P @ [''''])
           = Inr st4"
    using filter_nonempty_id [OF N(3)] scan_bullets [OF _ P(1),
        of "\<lparr>result = R0\<lparr>insight_summary := S, key_innovations := K, novel_methods := N\<rparr>,
             current_section = Some Potential_applications, current_text = []\<rparr>"]
    by (auto simp: header_applications st3_def st4_def scan_lines_append process_empty_line
        R0_def initial_state_def)
  define st5 where "st5 =
    \<lparr>result = R0\<lparr>insight_summary := S, key_innovations := K, novel_methods := N,
                  potential_applications := P\<rparr>,
     current_section = Some Extracted_keywords, current_text = W\<rparr>"
  have 5: "scan_lines st4 [''Extracted Keywords:'', ''- '' @ str_join '', '' W] = Inr st5"
    using filter_nonempty_id [OF P(3)] keywords_line_roundtrip [OF _ W(1),
        of "\<lparr>result = R0\<lparr>insight_summary := S, key_innovations := K, novel_methods := N,
                  potential_applications := P\<rparr>,
             current_section = Some Extracted_keywords, current_text = []\<rparr>"]
    by (auto simp: header_keywords st4_def st5_def R0_def initial_state_def)
  have lines: "serialize_lines r =
      [''Insight Summary:'', S, ''''] @ (''Key Innovations:'' # map (\<lambda>x. ''- '' @ x) K @ [''''])
      @ (''Novel Methods / Techniques:'' # map (\<lambda>x. ''- '' @ x) N @ [''''])
      @ (''Potential Applications:'' # map (\<lambda>x. ''- '' @ x) P @ [''''])
      @ [''Extracted Keywords:'', ''- '' @ str_join '', '' W]"
    by (simp add: serialize_lines_def fields)
  have scan: "scan_lines initial_state (serialize_lines r) = Inr st5"
    unfolding lines by (simp only: scan_lines_append 1 2 3 4 5 sum.case)
  have fin: "save_final_section st5 = r"
    using W(3) by (cases "W = []")
      (simp_all add: save_final_section_def st5_def r R0_def initial_state_def)
  have "fallback_summary (serialize r) r = Inr r"
    using S(2) by (simp add: fallback_summary_def fields)
  moreover have "ensure_summary r = r" using S(2) by (simp add: ensure_summary_def fields)
  ultimately show ?thesis
    by (simp add: parse_structured_output_def str_split_def split scan fin)
qed

text \<open>The witness: the record of the specification's example.\<close>

theorem serialize_parse_roundtrip_witness:
  "roundtrip_domain
     \<lparr>insight_summary = ''This method improves turbine efficiency by 12%.'',
      key_innovations = [''Adaptive blade pitch control''],
      novel_methods = [''Reinforcement-learning controller''],
      potential_applications = [''Offshore wind farms''],
      extracted_keywords = [''wind'', ''turbine'', ''reinforcement learning'', ''control'']\<rparr>
   \<and> all_trimmed
     \<lparr>insight_summary = ''This method improves turbine efficiency by 12%.'',
      key_innovations = [''Adaptive blade pitch control''],
      novel_methods = [''Reinforcement-learning controller''],
      potential_applications = [''Offshore wind farms''],
      extracted_keywords = [''wind'', ''turbine'', ''reinforcement learning'', ''control'']\<rparr>
   \<and> parse_structured_output (serialize
     \<lparr>insight_summary = ''This method improves turbine efficiency by 12%.'',
      key_innovations = [''Adaptive blade pitch control''],
      novel_methods = [''Reinforcement-learning controller''],
      potential_applications = [''Offshore wind farms''],
      extracted_keywords = [''wind'', ''turbine'', ''reinforcement learning'', ''control'']\<rparr>)
     = Inr
     \<lparr>insight_summary = ''This method improves turbine efficiency by 12%.'',
      key_innovations = [''Adaptive blade pitch control''],
      novel_methods = [''Reinforcement-learning controller''],
      potential_applications = [''Offshore wind farms''],
      extracted_keywords = [''wind'', ''turbine'', ''reinforcement learning'', ''control'']\<rparr>"
proof -
  have d: "roundtrip_domain
     \<lparr>insight_summary = ''This method improves turbine efficiency by 12%.'',
      key_innovations = [''Adaptive blade pitch control''],
      novel_methods = [''Reinforcement-learning controller''],
      potential_applications = [''Offshore wind farms''],
      extracted_keywords = [''wind'', ''turbine'', ''reinforcement learning'', ''control'']\<rparr>"
    by code_simp
  have t: "all_trimmed
     \<lparr>insight_summary = ''This method improves turbine efficiency by 12%.'',
      key_innovations = [''Adaptive blade pitch control''],
      novel_methods = [''Reinforcement-learning controller''],
      potential_applications = [''Offshore wind farms''],
      extracted_keywords = [''wind'', ''turbine'', ''reinforcement learning'', ''control'']\<rparr>"
    by code_simp
  show ?thesis using d t serialize_parse_roundtrip [OF d t] by simp
qed

text \<open>
  The claim as it is written asks nothing about whitespace: this record meets all it
  asks, and its item \<open>Adaptive pitch \<close>, with a space at the end, comes back without it.
\<close>

theorem untrimmed_item_counterexample:
  "roundtrip_domain
     \<lparr>insight_summary = ''A new controller.'', key_innovations = [''Adaptive pitch ''],
      novel_methods = [], potential_applications = [], extracted_keywords = [''wind'']\<rparr>
   \<and> parse_structured_output (serialize
     \<lparr>insight_summary = ''A new controller.'', key_innovations = [''Adaptive pitch ''],
      novel_methods = [], potential_applications = [], extracted_keywords = [''wind'']\<rparr>)
     = Inr
     \<lparr>insight_summary = ''A new controller.'', key_innovations = [''Adaptive pitch''],
      novel_methods = [], potential_applications = [], extracted_keywords = [''wind'']\<rparr>"
  by code_simp

text \<open>
  C10. In the keywords section, a line that once stripped neither starts with \<open>-\<close> nor
  holds a comma adds no token, even when it is not empty: the fields are untouched, and
  the state is unchanged unless the line is a header, which leaves the keywords section
  or empties the buffer.
\<close>

theorem keyword_line_without_dash_or_comma:
  assumes "current_section st = Some Extracted_keywords"
    and "\<not> str_startswith (str_strip l) ''-''"
    and "CHR '','' \<notin> set (str_strip l)"
  shows "\<exists>st'. process_line st l = Inr st' \<and> result st' = result st
      \<and> (if is_header (str_strip l)
          then current_section st' = Some Insight_summary \<or> current_text st' = []
          else st' = st)"
proof (cases "is_header (str_strip l)")
  case False
  with assms show ?thesis
    by (simp add: process_line_no_header process_content_def)
next
  case True
  with assms(1) show ?thesis
    by (auto simp: process_line_def is_header_def Let_def str_split1_def py_index_def)
qed

text \<open>The witness: the single keyword \<open>solar\<close> on a line of its own is dropped.\<close>

theorem keyword_line_without_dash_or_comma_witness:
  "current_section \<lparr>result = result initial_state, current_section = Some Extracted_keywords,
                    current_text = [''wind'']\<rparr> = Some Extracted_keywords
   \<and> \<not> str_startswith (str_strip ''solar'') ''-''
   \<and> CHR '','' \<notin> set (str_strip ''solar'')
   \<and> process_line \<lparr>result = result initial_state, current_section = Some Extracted_keywords,
                    current_text = [''wind'']\<rparr> ''solar''
     = Inr \<lparr>result = result initial_state, current_section = Some Extracted_keywords,
            current_text = [''wind'']\<rparr>"
proof -
  have s: "str_strip ''solar'' = ''solar''" by code_simp
  have h1: "current_section \<lparr>result = result initial_state,
              current_section = Some Extracted_keywords, current_text = [''wind'']\<rparr>
            = Some Extracted_keywords"
    by simp
  have h2: "\<not> str_startswith (str_strip ''solar'') ''-''" unfolding s by simp
  have h3: "CHR '','' \<notin> set (str_strip ''solar'')" unfolding s by simp
  have h: "\<not> is_header (str_strip ''solar'')" unfolding s by (simp add: is_header_def)
  show ?thesis
    using h1 h2 h3 keyword_line_without_dash_or_comma [OF h1 h2 h3] h by auto
qed

end
